theory Spec2Isabelle
  imports Main "HOL-Library.Sublist"
begin

section \<open>Data model\<close>

text \<open>
  A Go \<open>rune\<close> is modelled as a \<open>char\<close> and a \<open>[]rune\<close> as a \<open>string\<close>; a Go \<open>string\<close>
  is identified with its rune sequence (valid UTF-8 text), so \<open>len([]rune(s[:i]))\<close> is the
  rune index itself. Go \<open>int\<close> coordinates are \<open>int\<close>; lengths and slice offsets are \<open>nat\<close>.
\<close>

type_synonym rune = char

record point =
  x :: int
  y :: int

type_synonym segment = "point \<times> point"

text \<open>\<open>tcell.Style\<close> is kept as the pair of hex colours the tokenizer parsed (foreground, background).\<close>

type_synonym style = "int \<times> int"

record token =
  buffer :: "rune list"
  pos :: point
  rune :: "rune option"
  style :: "style option"
  newLine :: bool
  eof :: bool
  start :: bool
  selectStart :: bool
  selectEnd :: bool

datatype parseState = visible | escape | tag

definition selectFromToken :: string where
  "selectFromToken = ''<select-from>''"

definition selectToToken :: string where
  "selectToToken = ''<select-to>''"

section \<open>Tokens\<close>

definition reset :: "token \<Rightarrow> token" where
  "reset tk = \<lparr>buffer = buffer tk, pos = pos tk, rune = None, style = None, newLine = False,
     eof = False, start = False, selectStart = False, selectEnd = False\<rparr>"

definition setSelectStart :: "token \<Rightarrow> token" where
  "setSelectStart tk = (reset tk)\<lparr>selectStart := True\<rparr>"

definition setSelectEnd :: "token \<Rightarrow> token" where
  "setSelectEnd tk = (reset tk)\<lparr>selectEnd := True\<rparr>"

definition setStart :: "token \<Rightarrow> token" where
  "setStart tk = (reset tk)\<lparr>start := True\<rparr>"

definition setEof :: "token \<Rightarrow> token" where
  "setEof tk = (reset tk)\<lparr>eof := True\<rparr>"

definition setNewLine :: "token \<Rightarrow> token" where
  "setNewLine tk = (reset tk)\<lparr>newLine := True\<rparr>"

definition setRune :: "rune \<Rightarrow> token \<Rightarrow> token" where
  "setRune r tk = (reset tk)\<lparr>rune := Some r\<rparr>"

definition setStyle :: "style \<Rightarrow> token \<Rightarrow> token" where
  "setStyle s tk = (reset tk)\<lparr>style := Some s\<rparr>"

text \<open>\<open>makeToken\<close> of the test file: the zero token at a position with a buffer.\<close>

definition makeToken :: "int \<Rightarrow> int \<Rightarrow> rune list \<Rightarrow> token" where
  "makeToken px py b = \<lparr>buffer = b, pos = \<lparr>x = px, y = py\<rparr>, rune = None, style = None,
     newLine = False, eof = False, start = False, selectStart = False, selectEnd = False\<rparr>"

section \<open>The colour tag pattern\<close>

text \<open>
  \<open>colorTagPattern\<close> is the constant regular expression
  \<^verbatim>\<open><color:([A-Fa-f0-9]{6,6}):([A-Fa-f0-9]{6,6})>\<close>. It is not anchored and every match
  has 21 runes, so \<open>FindStringSubmatch\<close> returns the two groups of the leftmost position at
  which the fixed shape fits.
\<close>

definition isHex :: "rune \<Rightarrow> bool" where
  "isHex c = (c \<in> set ''0123456789abcdefABCDEF'')"

definition colorTagAt :: "string \<Rightarrow> (string \<times> string) option" where
  "colorTagAt s =
     (if 21 \<le> length s \<and> take 7 s = ''<color:'' \<and> list_all isHex (take 6 (drop 7 s))
         \<and> take 1 (drop 13 s) = '':'' \<and> list_all isHex (take 6 (drop 14 s))
         \<and> take 1 (drop 20 s) = ''>''
      then Some (take 6 (drop 7 s), take 6 (drop 14 s)) else None)"

fun colorTagFind :: "string \<Rightarrow> (string \<times> string) option" where
  "colorTagFind [] = None"
| "colorTagFind (c # cs) =
     (case colorTagAt (c # cs) of Some m \<Rightarrow> Some m | None \<Rightarrow> colorTagFind cs)"

text \<open>\<open>strconv.ParseUint(s, 16, 64)\<close> on hex digits (it cannot fail on six of them).\<close>

definition hexDigit :: "rune \<Rightarrow> int" where
  "hexDigit c = (let n = of_char c :: int in
     if 48 \<le> n \<and> n \<le> 57 then n - 48
     else if 97 \<le> n \<and> n \<le> 102 then n - 87
     else n - 55)"

definition parseHex :: "string \<Rightarrow> int" where
  "parseHex s = foldl (\<lambda>acc c. 16 * acc + hexDigit c) 0 s"

section \<open>The tokenizer\<close>

text \<open>
  The local variables of \<open>parseTokens\<close> that live across loop iterations: the state, the
  selection flag, the token \<open>t\<close> that is reused for every emission, and \<open>tmpX\<close>.
  The callback \<open>cb\<close> hands a snapshot of \<open>t\<close> to \<open>rawCB\<close> and then clears \<open>t.buffer\<close>;
  the snapshots, in order, are the list this model returns.
\<close>

record pvars =
  p_state :: parseState
  p_inSelection :: bool
  p_t :: token
  p_tmpX :: int

definition cb :: "pvars \<Rightarrow> token \<Rightarrow> pvars \<times> token list" where
  "cb v tk = (v\<lparr>p_t := tk\<lparr>buffer := []\<rparr>\<rparr>, [tk])"

definition setPosX :: "int \<Rightarrow> token \<Rightarrow> token" where
  "setPosX i tk = tk\<lparr>pos := (pos tk)\<lparr>x := i\<rparr>\<rparr>"

definition setPosY :: "int \<Rightarrow> token \<Rightarrow> token" where
  "setPosY i tk = tk\<lparr>pos := (pos tk)\<lparr>y := i\<rparr>\<rparr>"

definition toVisible :: "pvars \<times> token list \<Rightarrow> pvars \<times> token list" where
  "toVisible r = ((fst r)\<lparr>p_state := visible\<rparr>, snd r)"

definition parseVisible :: "pvars \<Rightarrow> rune \<Rightarrow> pvars \<times> token list" where
  "parseVisible v r =
     (let v1 = v\<lparr>p_t := setPosX (p_tmpX v) (p_t v)\<rparr> in
      if r = CHR ''&'' then (v1\<lparr>p_state := escape\<rparr>, [])
      else if r = CHR ''<'' then (v1\<lparr>p_state := tag\<rparr>, [])
      else cb v1 (setRune r (p_t v1)))"

definition parseEscape :: "pvars \<Rightarrow> rune \<Rightarrow> pvars \<times> token list" where
  "parseEscape v r =
     (if r = CHR '';'' then
        toVisible
          (if buffer (p_t v) = ''&amp;'' then cb v (setRune (CHR ''&'') (p_t v))
           else if buffer (p_t v) = ''&lt;'' then cb v (setRune (CHR ''<'') (p_t v))
           else if buffer (p_t v) = ''&gt;'' then cb v (setRune (CHR ''>'') (p_t v))
           else (v, []))
      else (v, []))"

definition parseTag :: "pvars \<Rightarrow> rune \<Rightarrow> pvars \<times> token list" where
  "parseTag v r =
     (if r = CHR ''>'' then
        toVisible
          (if buffer (p_t v) = selectFromToken \<or> buffer (p_t v) = selectToToken then
             (let res = (if p_inSelection v then cb v (setSelectEnd (p_t v))
                         else cb v (setSelectStart (p_t v)))
              in ((fst res)\<lparr>p_inSelection := \<not> p_inSelection v\<rparr>, snd res))
           else
             (case colorTagFind (buffer (p_t v)) of
                Some m \<Rightarrow> cb v (setStyle (parseHex (fst m), parseHex (snd m)) (p_t v))
              | None \<Rightarrow> (v, [])))
      else (v, []))"

text \<open>One iteration of the inner loop \<open>for tmpX, r = range line\<close>.\<close>

definition parseRune :: "pvars \<Rightarrow> int \<Rightarrow> rune \<Rightarrow> pvars \<times> token list" where
  "parseRune v i r =
     (let v1 = v\<lparr>p_tmpX := i, p_t := (p_t v)\<lparr>buffer := buffer (p_t v) @ [r]\<rparr>\<rparr> in
      case p_state v1 of
        visible \<Rightarrow> parseVisible v1 r
      | escape \<Rightarrow> parseEscape v1 r
      | tag \<Rightarrow> parseTag v1 r)"

fun parseRunes :: "pvars \<Rightarrow> int \<Rightarrow> rune list \<Rightarrow> pvars \<times> token list" where
  "parseRunes v i [] = (v, [])"
| "parseRunes v i (r # rs) =
     (let r1 = parseRune v i r; r2 = parseRunes (fst r1) (i + 1) rs
      in (fst r2, snd r1 @ snd r2))"

text \<open>
  The outer loop \<open>for t.pos.y, line = range buffer\<close>; \<open>n\<close> is \<open>len(buffer)\<close> and \<open>i\<close> the
  index of the line. \<open>tmpX\<close> keeps its old value over an empty line.
\<close>

definition lineEnd :: "pvars \<Rightarrow> nat \<Rightarrow> pvars \<times> token list" where
  "lineEnd v n =
     (if y (pos (p_t v)) + 1 < int n then
        toVisible (cb v (setNewLine (setPosX (p_tmpX v + 1) (p_t v))))
      else (v, []))"

fun parseLines :: "pvars \<Rightarrow> nat \<Rightarrow> int \<Rightarrow> rune list list \<Rightarrow> pvars \<times> token list" where
  "parseLines v n i [] = (v, [])"
| "parseLines v n i (line # ls) =
     (let r1 = parseRunes (v\<lparr>p_t := setPosY i (p_t v)\<rparr>) 0 line;
          r2 = lineEnd (fst r1) n;
          r3 = parseLines (fst r2) n (i + 1) ls
      in (fst r3, snd r1 @ snd r2 @ snd r3))"

definition initVars :: pvars where
  "initVars = \<lparr>p_state = visible, p_inSelection = False, p_t = makeToken 0 0 [], p_tmpX = 0\<rparr>"

definition parseTokens :: "rune list list \<Rightarrow> token list" where
  "parseTokens buf =
     (let r0 = cb initVars (setStart (p_t initVars));
          r1 = parseLines (fst r0) (length buf) 0 buf;
          v = fst r1;
          r2 = cb v (setEof (setPosX (p_tmpX v + 1) (p_t v)))
      in snd r0 @ snd r1 @ snd r2)"

section \<open>Strings and lines\<close>

text \<open>\<open>strings.Split(s, "\n")\<close>: always at least one line.\<close>

fun splitLines :: "string \<Rightarrow> string list" where
  "splitLines [] = [[]]"
| "splitLines (c # cs) =
     (if c = CHR 0x0A then [] # splitLines cs
      else (case splitLines cs of l # ls \<Rightarrow> (c # l) # ls | [] \<Rightarrow> [[c]]))"

definition stringToRunes :: "string \<Rightarrow> rune list list" where
  "stringToRunes s = splitLines s"

fun runesToString :: "rune list list \<Rightarrow> string" where
  "runesToString [] = []"
| "runesToString [line] = line"
| "runesToString (line # ls) = line @ [CHR 0x0A] @ runesToString ls"

text \<open>
  \<open>strings.ReplaceAll(s, old, new)\<close> for a non-empty \<open>old\<close>: the non-overlapping
  occurrences of \<open>old\<close>, left to right, are replaced.
\<close>

function ReplaceAll :: "string \<Rightarrow> string \<Rightarrow> string \<Rightarrow> string" where
  "ReplaceAll [] old new = []"
| "ReplaceAll (c # cs) old new =
     (if old \<noteq> [] \<and> prefix old (c # cs) then new @ ReplaceAll (drop (length old) (c # cs)) old new
      else c # ReplaceAll cs old new)"
  by pat_completeness auto
termination
  by (relation "measure (\<lambda>(s, old, new). length s)") (auto simp: neq_Nil_conv)

definition Escape :: "string \<Rightarrow> string" where
  "Escape s = ReplaceAll (ReplaceAll (ReplaceAll s ''&'' ''&amp;'') ''<'' ''&lt;'') ''>'' ''&gt;''"

section \<open>Panics\<close>

text \<open>
  A Go run-time panic is a value: the kind of the panic and the expression of the source
  that raised it.
\<close>

datatype site =
    PlainLastLine
  | HaystackSlice
  | HaystackIndexSlice
  | MatchStartSlice
  | StartIndexLookup
  | MatchEndSlice
  | EndIndexLookup
  | MatchSlice
  | ResRunesSlice
  | ScreenBufferIndexLookup
  | RawBufferLookup
  | RawBufferSlice
  | ScreenBufferLookup
  | ScreenBufferSlice
  | AppliedLookup

datatype panic = IndexOutOfRange site | SliceOutOfRange site

section \<open>Plain text\<close>





section \<open>Flattening\<close>

record flatIndex =
  raw :: point
  screen :: point
  flatRaw :: nat

text \<open>The four results of \<open>flattenWithIndex\<close> and its local \<open>screenPos\<close>.\<close>

record flat =
  f_flatRaw :: "rune list"
  f_flatScreen :: "rune list"
  f_rawIndex :: "flatIndex list"
  f_screenIndex :: "flatIndex list"
  f_screenPos :: point

text \<open>
  The loop \<open>for _ = range t.buffer\<close>: one entry per buffered rune, the raw column and the
  flat offset counting up from the token's position and from \<open>len(flatRaw)\<close>.
\<close>

definition spanIndex :: "point \<Rightarrow> point \<Rightarrow> nat \<Rightarrow> nat \<Rightarrow> flatIndex list" where
  "spanIndex p sp base n =
     map (\<lambda>k. \<lparr>raw = p\<lparr>x := x p + int k\<rparr>, screen = sp, flatRaw = base + k\<rparr>) [0..<n]"

definition flattenCB :: "flat \<Rightarrow> token \<Rightarrow> flat" where
  "flattenCB fl tk =
     (let here = \<lparr>raw = pos tk, screen = f_screenPos fl, flatRaw = length (f_flatRaw fl)\<rparr>;
          span = spanIndex (pos tk) (f_screenPos fl) (length (f_flatRaw fl)) (length (buffer tk))
      in
      if rune tk \<noteq> None then
        fl\<lparr>f_rawIndex := f_rawIndex fl @ span,
           f_screenIndex := f_screenIndex fl @ [here],
           f_screenPos := (f_screenPos fl)\<lparr>x := x (f_screenPos fl) + 1\<rparr>,
           f_flatRaw := f_flatRaw fl @ buffer tk,
           f_flatScreen := f_flatScreen fl @ [the (rune tk)]\<rparr>
      else if newLine tk then
        fl\<lparr>f_rawIndex := f_rawIndex fl @ [here],
           f_screenIndex := f_screenIndex fl @ [here],
           f_screenPos := \<lparr>x = 0, y = y (f_screenPos fl) + 1\<rparr>,
           f_flatRaw := f_flatRaw fl @ [CHR 0x0A],
           f_flatScreen := f_flatScreen fl @ [CHR 0x0A]\<rparr>
      else if eof tk then
        fl\<lparr>f_rawIndex := f_rawIndex fl @ [here],
           f_screenIndex := f_screenIndex fl @ [here]\<rparr>
      else
        fl\<lparr>f_rawIndex := f_rawIndex fl @ span,
           f_flatRaw := f_flatRaw fl @ buffer tk\<rparr>)"

definition flatInit :: flat where
  "flatInit = \<lparr>f_flatRaw = [], f_flatScreen = [], f_rawIndex = [], f_screenIndex = [],
     f_screenPos = \<lparr>x = 0, y = 0\<rparr>\<rparr>"

definition flattenWithIndex :: "rune list list \<Rightarrow> flat" where
  "flattenWithIndex rs = foldl flattenCB flatInit (parseTokens rs)"

text \<open>
  Invariant of the flattening loop: the flat offsets recorded so far are sorted and none
  exceeds the length of \<open>flatRaw\<close>.
\<close>

definition flatSorted :: "flat \<Rightarrow> bool" where
  "flatSorted fl = (sorted (map flatRaw (f_rawIndex fl))
     \<and> list_all (\<lambda>e. flatRaw e \<le> length (f_flatRaw fl)) (f_rawIndex fl))"


section \<open>Regular expressions\<close>

text \<open>
  \<open>regexp.Regexp\<close> belongs to the Go library. \<open>replace\<close> uses two of its methods, and a
  compiled pattern is modelled by that pair: \<open>FindStringIndex\<close> gives the rune offsets of
  the leftmost match in its argument, \<open>ReplaceAllString src repl\<close> the rewritten \<open>src\<close>.
\<close>

record regexp =
  FindStringIndex :: "string \<Rightarrow> (nat \<times> nat) option"
  ReplaceAllString :: "string \<Rightarrow> string \<Rightarrow> string"

text \<open>
  The patterns of this repository and of its tests are built from literals, alternation,
  concatenation and the greedy \<^verbatim>\<open>(?s).*\<close>. For this fragment \<open>ends r s\<close> lists the lengths
  of the matches of \<open>r\<close> at the start of \<open>s\<close> in the order in which a backtracking
  (leftmost-first) matcher tries them, so its head is the match Go reports there.
\<close>

datatype regex = Lit string | Alt regex regex | Cat regex regex | AnyStar

fun ends :: "regex \<Rightarrow> string \<Rightarrow> nat list" where
  "ends (Lit w) s = (if prefix w s then [length w] else [])"
| "ends (Alt a b) s = ends a s @ ends b s"
| "ends (Cat a b) s = concat (map (\<lambda>n. map (\<lambda>m. n + m) (ends b (drop n s))) (ends a s))"
| "ends AnyStar s = rev [0..<Suc (length s)]"

text \<open>The leftmost match in \<open>s\<close>, where \<open>s\<close> starts at offset \<open>i\<close> of the searched text.\<close>

fun findAt :: "regex \<Rightarrow> nat \<Rightarrow> string \<Rightarrow> (nat \<times> nat) option" where
  "findAt r i [] = (case ends r [] of n # _ \<Rightarrow> Some (i, i + n) | [] \<Rightarrow> None)"
| "findAt r i (c # cs) =
     (case ends r (c # cs) of n # _ \<Rightarrow> Some (i, i + n) | [] \<Rightarrow> findAt r (Suc i) cs)"

text \<open>
  The loop of the library's \<open>ReplaceAllString\<close> for a template without \<open>$\<close> (every
  template of the repository is one): copy the text before each match, insert the
  template unless the match is empty and touches the previous match, and move on by at
  least one rune.
\<close>

function replaceAllLoop :: "regex \<Rightarrow> string \<Rightarrow> string \<Rightarrow> nat \<Rightarrow> nat \<Rightarrow> string" where
  "replaceAllLoop r repl src lastMatchEnd searchPos =
     (if length src < searchPos then drop lastMatchEnd src
      else
        (case findAt r searchPos (drop searchPos src) of
           None \<Rightarrow> drop lastMatchEnd src
         | Some (a, b) \<Rightarrow>
             take (a - lastMatchEnd) (drop lastMatchEnd src)
             @ (if lastMatchEnd < b \<or> a = 0 then repl else [])
             @ replaceAllLoop r repl src b (if b < searchPos + 1 then searchPos + 1 else b)))"
  by pat_completeness auto
termination
  by (relation "measure (\<lambda>(r, repl, src, lastMatchEnd, searchPos). Suc (length src) - searchPos)")
     auto

definition compile :: "regex \<Rightarrow> regexp" where
  "compile r = \<lparr>FindStringIndex = findAt r 0,
                 ReplaceAllString = (\<lambda>src repl. replaceAllLoop r repl src 0 0)\<rparr>"

definition selectFromPattern :: regex where
  "selectFromPattern = Lit selectFromToken"

definition selectToPattern :: regex where
  "selectToPattern = Lit selectToToken"

definition selectionPattern :: regex where
  "selectionPattern =
     Cat (Alt selectToPattern selectFromPattern)
       (Cat AnyStar (Alt selectToPattern selectFromPattern))"

section \<open>Replace\<close>

text \<open>
  The decision callback is a Go closure; its captured variables are the state \<open>'s\<close> that
  the model passes through the calls.
\<close>

type_synonym 's query = "'s \<Rightarrow> string \<Rightarrow> segment \<Rightarrow> segment \<Rightarrow> bool \<times> 's"

text \<open>The variables the loop of \<open>replace\<close> changes.\<close>

record 's rvars =
  haystackOffset :: nat
  resRunes :: "rune list"
  qstate :: "'s"

text \<open>
  One iteration of the loop: \<open>Inl\<close> is a return (a panic or the new buffer), \<open>Inr\<close> the
  variables for the next iteration. Go lets \<open>resRunes[:n]\<close> reach beyond \<open>len(resRunes)\<close>
  up to the capacity the run-time happened to allocate; the model stops there with a
  slice panic.
\<close>

definition replaceIter ::
  "regexp \<Rightarrow> string \<Rightarrow> 's query \<Rightarrow> rune list \<Rightarrow> flatIndex list \<Rightarrow> 's rvars
     \<Rightarrow> (panic + rune list list \<times> 's) + 's rvars" where
  "replaceIter p repl query haystack haystackIndex v =
     (let off = haystackOffset v in
      if length haystack < off then Inl (Inl (SliceOutOfRange HaystackSlice))
      else if length haystackIndex < off then Inl (Inl (SliceOutOfRange HaystackIndexSlice))
      else
        (let searchString = drop off haystack;
             remainingHaystackIndex = drop off haystackIndex
         in case FindStringIndex p searchString of
           None \<Rightarrow> Inl (Inr (stringToRunes (resRunes v), qstate v))
         | Some (a, b) \<Rightarrow>
             if length searchString < a then Inl (Inl (SliceOutOfRange MatchStartSlice))
             else if length remainingHaystackIndex \<le> a then
               Inl (Inl (IndexOutOfRange StartIndexLookup))
             else if length searchString < b then Inl (Inl (SliceOutOfRange MatchEndSlice))
             else if length remainingHaystackIndex \<le> b then
               Inl (Inl (IndexOutOfRange EndIndexLookup))
             else if b < a then Inl (Inl (SliceOutOfRange MatchSlice))
             else
               (let startIndex = remainingHaystackIndex ! a;
                    endIndex = remainingHaystackIndex ! b;
                    matched = take (b - a) (drop a searchString);
                    answer = query (qstate v) matched (raw startIndex, raw endIndex)
                               (screen startIndex, screen endIndex)
                in if fst answer \<and> length (resRunes v) < flatRaw startIndex then
                     Inl (Inl (SliceOutOfRange ResRunesSlice))
                   else
                     (let res = (if fst answer then
                                   take (flatRaw startIndex) (resRunes v)
                                   @ ReplaceAllString p matched repl @ drop b searchString
                                 else resRunes v);
                          off' = off + b
                      in if int (length haystack) - 1 < int off' then
                           Inl (Inr (stringToRunes res, snd answer))
                         else Inr \<lparr>haystackOffset = off', resRunes = res,
                                    qstate = snd answer\<rparr>))))"

text \<open>The loop \<open>for { ... }\<close>: \<open>None\<close> is the loop that never returns.\<close>

partial_function (option) replaceLoop ::
  "regexp \<Rightarrow> string \<Rightarrow> 's query \<Rightarrow> rune list \<Rightarrow> flatIndex list \<Rightarrow> 's rvars
     \<Rightarrow> (panic + rune list list \<times> 's) option" where
  "replaceLoop p repl query haystack haystackIndex v =
     (case replaceIter p repl query haystack haystackIndex v of
        Inl res \<Rightarrow> Some res
      | Inr v' \<Rightarrow> replaceLoop p repl query haystack haystackIndex v')"

declare replaceLoop.simps [code]

definition replace ::
  "rune list list \<Rightarrow> bool \<Rightarrow> regexp \<Rightarrow> string \<Rightarrow> 's query \<Rightarrow> 's
     \<Rightarrow> (panic + rune list list \<times> 's) option" where
  "replace rs rawSpace p repl query st =
     (let fl = flattenWithIndex rs;
          haystack = (if rawSpace then f_flatRaw fl else f_flatScreen fl);
          haystackIndex = (if rawSpace then f_rawIndex fl else f_screenIndex fl)
      in replaceLoop p repl query haystack haystackIndex
           \<lparr>haystackOffset = 0, resRunes = f_flatRaw fl, qstate = st\<rparr>)"

text \<open>A callback that accepts every match and records its three arguments, as the test's does.\<close>

definition acceptAll :: "(string \<times> segment \<times> segment) list query" where
  "acceptAll st m rawSeg screenSeg = (True, st @ [(m, rawSeg, screenSeg)])"

definition pt :: "int \<Rightarrow> int \<Rightarrow> point" where
  "pt px py = \<lparr>x = px, y = py\<rparr>"

text \<open>Invariant of the flattening loop before the \<open>eof\<close> token: each table is as long as its text.\<close>

definition flatLens :: "flat \<Rightarrow> bool" where
  "flatLens fl = (length (f_rawIndex fl) = length (f_flatRaw fl)
     \<and> length (f_screenIndex fl) = length (f_flatScreen fl))"



section \<open>The editor\<close>

text \<open>
  The diff library (\<open>diffmatchpatch\<close>) is a field of the editor, as in the source: its two
  methods over an abstract type \<open>'p\<close> of patches.
\<close>

record 'p differ =
  PatchMake :: "string \<Rightarrow> string \<Rightarrow> 'p list"
  PatchApply :: "'p list \<Rightarrow> string \<Rightarrow> string \<times> bool list"

text \<open>The struct \<open>patch\<close>; its field \<open>cursor\<close> is \<open>patchCursor\<close> here, beside the editor's \<open>cursor\<close>.\<close>

record 'p patch =
  patchCursor :: point
  patches :: "'p list"

text \<open>
  \<open>screenSize\<close> is what \<open>e.Screen.Size()\<close> returns (width, height); the cells the display
  is asked to draw are not part of the model.
\<close>

record 'p Editor =
  screenSize :: "int \<times> int"
  rawBuffer :: "rune list list"
  screenBuffer :: "rune list list"
  screenBufferIndex :: "point list list"
  lineOffset :: int
  selecting :: bool
  pasteBuffer :: "rune list list"
  undoPatches :: "'p patch list"
  redoPatches :: "'p patch list"
  cursor :: point
  differ :: "'p differ"

definition andThen :: "panic + 'a \<Rightarrow> ('a \<Rightarrow> panic + 'b) \<Rightarrow> panic + 'b" where
  "andThen r f = (case r of Inl e \<Rightarrow> Inl e | Inr a \<Rightarrow> f a)"

text \<open>\<open>xs[i]\<close> in Go: a panic outside \<open>0 \<le> i < len(xs)\<close>.\<close>

definition index :: "'a list \<Rightarrow> int \<Rightarrow> site \<Rightarrow> panic + 'a" where
  "index xs i s =
     (if 0 \<le> i \<and> i < int (length xs) then Inr (xs ! nat i) else Inl (IndexOutOfRange s))"

subsection \<open>redraw\<close>

type_synonym screen = "rune list list \<times> point list list"

definition beginLine :: "screen \<Rightarrow> screen" where
  "beginLine sb = (fst sb @ [[]], snd sb @ [[]])"

definition endLine :: "int \<Rightarrow> screen \<Rightarrow> panic + screen" where
  "endLine rawLineIdx sb =
     (if snd sb = [] then Inl (IndexOutOfRange ScreenBufferIndexLookup)
      else Inr (fst sb, butlast (snd sb) @ [last (snd sb) @ [\<lparr>x = - 1, y = rawLineIdx\<rparr>]]))"

text \<open>The callback of \<open>redraw\<close>; the styles only reach the display and are left out.\<close>

definition redrawCB :: "int \<Rightarrow> screen \<Rightarrow> token \<Rightarrow> panic + screen" where
  "redrawCB width sb tk =
     (if start tk then Inr (beginLine sb)
      else if newLine tk then andThen (endLine (y (pos tk)) sb) (\<lambda>sb'. Inr (beginLine sb'))
      else if rune tk \<noteq> None then
        (if fst sb = [] then Inl (IndexOutOfRange ScreenBufferLookup)
         else if snd sb = [] then Inl (IndexOutOfRange ScreenBufferIndexLookup)
         else
           (let sb1 = (butlast (fst sb) @ [last (fst sb) @ [the (rune tk)]],
                       butlast (snd sb) @ [last (snd sb) @ [pos tk]])
            in if width - 1 < int (length (last (fst sb1))) then
                 andThen (endLine (y (pos tk)) sb1) (\<lambda>sb'. Inr (beginLine sb'))
               else Inr sb1))
      else if style tk \<noteq> None then Inr sb
      else if eof tk then endLine (y (pos tk)) sb
      else Inr sb)"

fun redrawLoop :: "int \<Rightarrow> screen \<Rightarrow> token list \<Rightarrow> panic + screen" where
  "redrawLoop width sb [] = Inr sb"
| "redrawLoop width sb (tk # tks) =
     (case redrawCB width sb tk of Inl e \<Rightarrow> Inl e | Inr sb' \<Rightarrow> redrawLoop width sb' tks)"

text \<open>
  After the buffers are rebuilt the rows from \<open>lineOffset\<close> on are copied to the display:
  \<open>e.screenBuffer[e.lineOffset:]\<close> panics when \<open>lineOffset\<close> is negative or beyond the
  number of screen lines.
\<close>

definition redraw :: "'p Editor \<Rightarrow> panic + 'p Editor" where
  "redraw e =
     (let e0 = e\<lparr>screenBuffer := [], screenBufferIndex := []\<rparr> in
      if fst (screenSize e) = 0 \<or> snd (screenSize e) = 0 then Inr e0
      else
        andThen (redrawLoop (fst (screenSize e)) ([], []) (parseTokens (rawBuffer e)))
          (\<lambda>sb. if lineOffset e < 0 \<or> int (length (fst sb)) < lineOffset e then
                   Inl (SliceOutOfRange ScreenBufferSlice)
                 else Inr (e0\<lparr>screenBuffer := fst sb, screenBufferIndex := snd sb\<rparr>)))"

subsection \<open>Editing the raw buffer\<close>

text \<open>\<open>e.screenBufferIndex[screenPoint.y+e.lineOffset][screenPoint.x]\<close>\<close>

definition rawPointAt :: "point \<Rightarrow> 'p Editor \<Rightarrow> panic + point" where
  "rawPointAt screenPoint e =
     andThen (index (screenBufferIndex e) (y screenPoint + lineOffset e) ScreenBufferIndexLookup)
       (\<lambda>row. index row (x screenPoint) ScreenBufferIndexLookup)"

definition setLine :: "int \<Rightarrow> rune list \<Rightarrow> 'p Editor \<Rightarrow> 'p Editor" where
  "setLine i line e = e\<lparr>rawBuffer := (rawBuffer e)[nat i := line]\<rparr>"

text \<open>
  The body of \<open>deleteAt\<close> once the raw point \<open>p\<close> is known. The three escape tests ask for
  strictly more than 5 (or 4) runes from \<open>p.x\<close> to the end of the line.
\<close>

definition deleteRaw :: "point \<Rightarrow> 'p Editor \<Rightarrow> panic + 'p Editor" where
  "deleteRaw p e =
     (if x p < 0 then
        (if y p + 1 < int (length (rawBuffer e)) then
           (if y p < 0 then Inl (SliceOutOfRange RawBufferSlice)
            else Inr (e\<lparr>rawBuffer :=
                   take (nat (y p)) (rawBuffer e)
                   @ [rawBuffer e ! nat (y p) @ rawBuffer e ! (nat (y p) + 1)]
                   @ drop (nat (y p) + 2) (rawBuffer e)\<rparr>))
         else Inr e)
      else
        andThen (index (rawBuffer e) (y p) RawBufferLookup) (\<lambda>line.
        andThen (index line (x p) RawBufferLookup) (\<lambda>r.
          (let n = int (length line) - x p; k = nat (x p) in
           if r = CHR ''&'' \<and> 5 < n \<and> take 5 (drop k line) = ''&amp;'' then
             Inr (setLine (y p) (take k line @ drop (k + 5) line) e)
           else if r = CHR ''&'' \<and> 4 < n \<and> take 4 (drop k line) = ''&gt;'' then
             Inr (setLine (y p) (take k line @ drop (k + 4) line) e)
           else if r = CHR ''&'' \<and> 4 < n \<and> take 4 (drop k line) = ''&lt;'' then
             Inr (setLine (y p) (take k line @ drop (k + 4) line) e)
           else Inr (setLine (y p) (take k line @ drop (k + 1) line) e)))))"

text \<open>\<open>defer e.redraw()\<close>: the redraw runs after the body; a panic of the body stays a panic.\<close>

definition deleteAt :: "point \<Rightarrow> 'p Editor \<Rightarrow> panic + 'p Editor" where
  "deleteAt screenPoint e =
     andThen (andThen (rawPointAt screenPoint e) (\<lambda>p. deleteRaw p e)) redraw"

definition addLineRaw :: "point \<Rightarrow> 'p Editor \<Rightarrow> panic + 'p Editor" where
  "addLineRaw p e =
     (if x p < 0 then
        (if y p + 1 < 0 \<or> int (length (rawBuffer e)) < y p + 1 then
           Inl (SliceOutOfRange RawBufferSlice)
         else Inr (e\<lparr>rawBuffer := take (nat (y p + 1)) (rawBuffer e) @ [[]]
                     @ drop (nat (y p + 1)) (rawBuffer e)\<rparr>))
      else
        (if y p < 0 then Inl (SliceOutOfRange RawBufferSlice)
         else
           andThen (index (rawBuffer e) (y p) RawBufferLookup) (\<lambda>line.
             if int (length line) < x p then Inl (SliceOutOfRange RawBufferSlice)
             else Inr (e\<lparr>rawBuffer := take (nat (y p)) (rawBuffer e)
                         @ [take (nat (x p)) line] @ [drop (nat (x p)) line]
                         @ drop (nat (y p) + 1) (rawBuffer e)\<rparr>))))"

definition addLineAt :: "point \<Rightarrow> 'p Editor \<Rightarrow> panic + 'p Editor" where
  "addLineAt screenPoint e =
     andThen (andThen (rawPointAt screenPoint e) (\<lambda>p. addLineRaw p e)) redraw"

definition writeRaw :: "rune list \<Rightarrow> point \<Rightarrow> 'p Editor \<Rightarrow> panic + 'p Editor" where
  "writeRaw runes p e =
     andThen (index (rawBuffer e) (y p) RawBufferLookup) (\<lambda>line.
       if x p < 0 then Inr (setLine (y p) (line @ runes) e)
       else if int (length line) < x p then Inl (SliceOutOfRange RawBufferSlice)
       else Inr (setLine (y p) (take (nat (x p)) line @ runes @ drop (nat (x p)) line) e))"

definition writeAt :: "rune list \<Rightarrow> point \<Rightarrow> 'p Editor \<Rightarrow> panic + 'p Editor" where
  "writeAt runes screenPoint e =
     andThen (andThen (rawPointAt screenPoint e) (\<lambda>p. writeRaw runes p e)) redraw"

subsection \<open>Cursor and scrolling\<close>

datatype direction = up | left | down | right

definition limitInt :: "int \<Rightarrow> int \<Rightarrow> int \<Rightarrow> int" where
  "limitInt i minInc maxExc =
     (let i1 = (if i < minInc then minInc else i) in if maxExc \<le> i1 then maxExc - 1 else i1)"

definition minInt :: "int list \<Rightarrow> int" where
  "minInt js = foldl (\<lambda>res j. if j < res then j else res) 9223372036854775807 js"

definition maxInt :: "int list \<Rightarrow> int" where
  "maxInt js = foldl (\<lambda>res j. if res < j then j else res) (- 9223372036854775808) js"

definition lineWidth :: "int \<Rightarrow> 'p Editor \<Rightarrow> panic + int" where
  "lineWidth yy e =
     (if yy + lineOffset e < int (length (screenBuffer e)) then
        andThen (index (screenBuffer e) (yy + lineOffset e) ScreenBufferLookup)
          (\<lambda>line. Inr (int (length line)))
      else Inr 0)"

definition setCursor :: "'p Editor \<Rightarrow> panic + 'p Editor" where
  "setCursor e =
     (if fst (screenSize e) = 0 \<or> snd (screenSize e) = 0 then Inr e
      else
        (let cy = limitInt (y (cursor e)) 0
                    (minInt [snd (screenSize e), int (length (screenBuffer e)) - lineOffset e])
         in andThen (lineWidth cy e) (\<lambda>lw.
              Inr (e\<lparr>cursor := \<lparr>x = limitInt (x (cursor e)) 0 (minInt [fst (screenSize e), lw + 1]),
                                 y = cy\<rparr>\<rparr>))))"

definition canMoveCursor :: "direction \<Rightarrow> 'p Editor \<Rightarrow> panic + bool" where
  "canMoveCursor d e =
     (case d of
        up \<Rightarrow> Inr (0 < y (cursor e))
      | left \<Rightarrow> Inr (0 < x (cursor e))
      | down \<Rightarrow> Inr (y (cursor e) + 1 < snd (screenSize e)
                     \<and> y (cursor e) + lineOffset e < int (length (screenBuffer e)) - 1)
      | right \<Rightarrow>
          (if x (cursor e) + 1 < fst (screenSize e) then
             andThen (lineWidth (y (cursor e)) e) (\<lambda>lw. Inr (x (cursor e) < lw))
           else Inr False))"

definition canScroll :: "direction \<Rightarrow> 'p Editor \<Rightarrow> bool" where
  "canScroll d e =
     (case d of
        up \<Rightarrow> 0 < lineOffset e
      | down \<Rightarrow> lineOffset e + 1 < int (length (screenBuffer e)) - snd (screenSize e) div 2
      | _ \<Rightarrow> False)"

definition scroll :: "direction \<Rightarrow> 'p Editor \<Rightarrow> panic + 'p Editor" where
  "scroll d e =
     (if fst (screenSize e) = 0 \<or> snd (screenSize e) = 0 then Inr e
      else
        (let lo = (case d of up \<Rightarrow> lineOffset e - 1 | down \<Rightarrow> lineOffset e + 1
                   | _ \<Rightarrow> lineOffset e)
         in redraw (e\<lparr>lineOffset :=
              limitInt lo 0 (int (length (screenBuffer e)) - snd (screenSize e) div 2)\<rparr>)))"

definition setCursorX :: "int \<Rightarrow> 'p Editor \<Rightarrow> 'p Editor" where
  "setCursorX i e = e\<lparr>cursor := (cursor e)\<lparr>x := i\<rparr>\<rparr>"

definition setCursorY :: "int \<Rightarrow> 'p Editor \<Rightarrow> 'p Editor" where
  "setCursorY i e = e\<lparr>cursor := (cursor e)\<lparr>y := i\<rparr>\<rparr>"

text \<open>\<open>e.cursor.x = len(e.screenBuffer[e.cursor.y+e.lineOffset])\<close>\<close>

definition cursorToLineEnd :: "'p Editor \<Rightarrow> panic + 'p Editor" where
  "cursorToLineEnd e =
     andThen (index (screenBuffer e) (y (cursor e) + lineOffset e) ScreenBufferLookup)
       (\<lambda>line. Inr (setCursorX (int (length line)) e))"

text \<open>
  The switch of \<open>moveCursor\<close>: \<open>Inl (b, e)\<close> is \<open>return b\<close> in the state \<open>e\<close>; \<open>Inr e\<close> is the
  one place that goes on with \<open>return e.moveCursor(left)\<close>.
\<close>

definition moveSwitch ::
  "direction \<Rightarrow> 'p Editor \<Rightarrow> panic + ((bool \<times> 'p Editor) + 'p Editor)" where
  "moveSwitch d e =
     (case d of
        up \<Rightarrow>
          andThen (canMoveCursor up e) (\<lambda>c.
            if c then Inr (Inl (True, setCursorY (y (cursor e) - 1) e))
            else if canScroll up e then andThen (scroll up e) (\<lambda>e'. Inr (Inl (True, e')))
            else Inr (Inl (False, e)))
      | left \<Rightarrow>
          andThen (canMoveCursor left e) (\<lambda>c.
            if c then Inr (Inl (True, setCursorX (x (cursor e) - 1) e))
            else andThen (canMoveCursor up e) (\<lambda>c'.
              if c' then andThen (cursorToLineEnd (setCursorY (y (cursor e) - 1) e))
                           (\<lambda>e'. Inr (Inl (True, e')))
              else if canScroll up e then
                andThen (scroll up e) (\<lambda>e'. andThen (cursorToLineEnd e') (\<lambda>e''. Inr (Inr e'')))
              else Inr (Inl (False, e))))
      | down \<Rightarrow>
          andThen (canMoveCursor down e) (\<lambda>c.
            if c then Inr (Inl (True, setCursorY (y (cursor e) + 1) e))
            else if canScroll down e then andThen (scroll down e) (\<lambda>e'. Inr (Inl (True, e')))
            else Inr (Inl (False, e)))
      | right \<Rightarrow>
          andThen (canMoveCursor right e) (\<lambda>c.
            if c then Inr (Inl (True, setCursorX (x (cursor e) + 1) e))
            else andThen (canMoveCursor down e) (\<lambda>c'.
              if c' then Inr (Inl (True, setCursorX 0 (setCursorY (y (cursor e) + 1) e)))
              else if y (cursor e) + lineOffset e + 1 < int (length (screenBuffer e))
                      \<and> canScroll down e then
                andThen (scroll down e) (\<lambda>e'. Inr (Inl (True, setCursorX 0 e')))
              else Inr (Inl (False, e)))))"

text \<open>\<open>defer e.setCursor()\<close> on a normal return.\<close>

definition thenSetCursor :: "panic + bool \<times> 'p Editor \<Rightarrow> panic + bool \<times> 'p Editor" where
  "thenSetCursor r = andThen r (\<lambda>be. andThen (setCursor (snd be)) (\<lambda>e'. Inr (fst be, e')))"

text \<open>\<open>moveCursor\<close> calls itself after scrolling up to the left: \<open>None\<close> is a recursion without end.\<close>

partial_function (option) moveCursor ::
  "direction \<Rightarrow> 'p Editor \<Rightarrow> (panic + bool \<times> 'p Editor) option" where
  "moveCursor d e =
     (case moveSwitch d e of
        Inl pn \<Rightarrow> Some (Inl pn)
      | Inr (Inl be) \<Rightarrow> Some (thenSetCursor (Inr be))
      | Inr (Inr e') \<Rightarrow> Option.bind (moveCursor left e') (\<lambda>r. Some (thenSetCursor r)))"

declare moveCursor.simps [code]

subsection \<open>The event loop\<close>

text \<open>
  The events of \<open>pollKeys\<close> that the model covers, all without modifier keys; a resize
  carries the size the display reports from then on.
\<close>

datatype event =
    EventResize int int
  | KeyEnter
  | KeyRune rune
  | KeyHome
  | KeyEnd
  | KeyUp
  | KeyDown
  | KeyLeft
  | KeyRight
  | KeyCtrlZ
  | KeyCtrlY

definition thenMove :: "direction \<Rightarrow> panic + 'p Editor \<Rightarrow> (panic + 'p Editor) option" where
  "thenMove d r =
     (case r of
        Inl pn \<Rightarrow> Some (Inl pn)
      | Inr e \<Rightarrow> map_option (\<lambda>r'. andThen r' (\<lambda>be. Inr (snd be))) (moveCursor d e))"

definition keyEnd :: "'p Editor \<Rightarrow> panic + 'p Editor" where
  "keyEnd e =
     (let lo = maxInt [0, int (length (screenBuffer e)) - snd (screenSize e) div 2];
          cy = int (length (screenBuffer e)) - lo - 1
      in andThen (index (screenBuffer e) cy ScreenBufferLookup) (\<lambda>line.
           andThen (redraw (e\<lparr>lineOffset := lo, cursor := \<lparr>x = int (length line), y = cy\<rparr>\<rparr>))
             setCursor))"

definition keyHome :: "'p Editor \<Rightarrow> panic + 'p Editor" where
  "keyHome e = andThen (redraw (e\<lparr>cursor := \<lparr>x = 0, y = 0\<rparr>, lineOffset := 0\<rparr>)) setCursor"

text \<open>\<open>applied[0]\<close> panics on an empty patch list.\<close>

definition keyCtrlZ :: "string \<Rightarrow> 'p Editor \<Rightarrow> panic + 'p Editor" where
  "keyCtrlZ prevContent e =
     (if undoPatches e = [] then Inr e
      else
        (let toApply = last (undoPatches e);
             e1 = e\<lparr>undoPatches := butlast (undoPatches e)\<rparr>;
             res = PatchApply (differ e) (patches toApply) prevContent
         in andThen (index (snd res) 0 AppliedLookup) (\<lambda>ok.
              if ok then
                redraw (e1\<lparr>redoPatches := redoPatches e1
                            @ [\<lparr>patchCursor = patchCursor toApply,
                                patches = PatchMake (differ e) (fst res) prevContent\<rparr>],
                          rawBuffer := stringToRunes (fst res),
                          cursor := patchCursor toApply\<rparr>)
              else Inr e1)))"

definition keyCtrlY :: "string \<Rightarrow> 'p Editor \<Rightarrow> panic + 'p Editor" where
  "keyCtrlY prevContent e =
     (if redoPatches e = [] then Inr e
      else
        (let toApply = last (redoPatches e);
             e1 = e\<lparr>redoPatches := butlast (redoPatches e)\<rparr>;
             res = PatchApply (differ e) (patches toApply) prevContent
         in andThen (index (snd res) 0 AppliedLookup) (\<lambda>ok.
              if ok then
                redraw (e1\<lparr>rawBuffer := stringToRunes (fst res), cursor := patchCursor toApply\<rparr>)
              else Inr e1)))"

definition handleEvent :: "event \<Rightarrow> string \<Rightarrow> 'p Editor \<Rightarrow> (panic + 'p Editor) option" where
  "handleEvent ev prevContent e =
     (case ev of
        EventResize w h \<Rightarrow> Some (andThen (redraw (e\<lparr>screenSize := (w, h)\<rparr>)) setCursor)
      | KeyEnter \<Rightarrow> thenMove right (addLineAt (cursor e) e)
      | KeyRune r \<Rightarrow> thenMove right (writeAt (Escape [r]) (cursor e) e)
      | KeyHome \<Rightarrow> Some (keyHome e)
      | KeyEnd \<Rightarrow> Some (keyEnd e)
      | KeyUp \<Rightarrow> thenMove up (Inr e)
      | KeyDown \<Rightarrow> thenMove down (Inr e)
      | KeyLeft \<Rightarrow> thenMove left (Inr e)
      | KeyRight \<Rightarrow> thenMove right (Inr e)
      | KeyCtrlZ \<Rightarrow> Some (keyCtrlZ prevContent e)
      | KeyCtrlY \<Rightarrow> Some (keyCtrlY prevContent e))"

text \<open>
  What follows the switch: without the shift key \<open>selectFrom\<close> is nil, so a selection in
  progress only loses its flag; then the undo patch is stored and the redo stack cleared.
\<close>

definition afterEvent :: "event \<Rightarrow> string \<Rightarrow> point \<Rightarrow> 'p Editor \<Rightarrow> 'p Editor" where
  "afterEvent ev prevContent prevCursor e =
     (let e1 = (if selecting e then e\<lparr>selecting := False\<rparr> else e);
          newContent = runesToString (rawBuffer e1);
          e2 = (if ev \<noteq> KeyCtrlZ \<and> newContent \<noteq> prevContent then
                  e1\<lparr>undoPatches := undoPatches e1
                       @ [\<lparr>patchCursor = prevCursor,
                           patches = PatchMake (differ e1) newContent prevContent\<rparr>]\<rparr>
                else e1)
      in if ev \<noteq> KeyCtrlZ \<and> ev \<noteq> KeyCtrlY then e2\<lparr>redoPatches := []\<rparr> else e2)"

definition pollEvent :: "event \<Rightarrow> 'p Editor \<Rightarrow> (panic + 'p Editor) option" where
  "pollEvent ev e =
     map_option
       (\<lambda>r. andThen r (\<lambda>e'. Inr (afterEvent ev (runesToString (rawBuffer e)) (cursor e) e')))
       (handleEvent ev (runesToString (rawBuffer e)) e)"

fun pollKeys :: "event list \<Rightarrow> 'p Editor \<Rightarrow> (panic + 'p Editor) option" where
  "pollKeys [] e = Some (Inr e)"
| "pollKeys (ev # evs) e =
     (case pollEvent ev e of
        None \<Rightarrow> None
      | Some (Inl pn) \<Rightarrow> Some (Inl pn)
      | Some (Inr e') \<Rightarrow> pollKeys evs e')"

text \<open>\<open>Edit\<close> up to the event loop, on a fresh editor with the given display size and differ.\<close>

definition newEditor :: "int \<times> int \<Rightarrow> 'p differ \<Rightarrow> 'p Editor" where
  "newEditor sz d = \<lparr>screenSize = sz, rawBuffer = [], screenBuffer = [], screenBufferIndex = [],
     lineOffset = 0, selecting = False, pasteBuffer = [], undoPatches = [], redoPatches = [],
     cursor = \<lparr>x = 0, y = 0\<rparr>, differ = d\<rparr>"

definition startEdit :: "int \<times> int \<Rightarrow> 'p differ \<Rightarrow> string \<Rightarrow> panic + 'p Editor" where
  "startEdit sz d s =
     andThen (redraw ((newEditor sz d)\<lparr>rawBuffer := stringToRunes s\<rparr>)) setCursor"

text \<open>\<open>Edit\<close> with the events the display delivers, up to the state after the last of them.\<close>

definition Edit ::
  "int \<times> int \<Rightarrow> 'p differ \<Rightarrow> string \<Rightarrow> event list \<Rightarrow> (panic + 'p Editor) option" where
  "Edit sz d s evs =
     (case startEdit sz d s of Inl pn \<Rightarrow> Some (Inl pn) | Inr e \<Rightarrow> pollKeys evs e)"

definition Content :: "'p Editor \<Rightarrow> string" where
  "Content e = runesToString (rawBuffer e)"

text \<open>
  A differ whose patches are exact: a patch made from \<open>a\<close> to \<open>b\<close> turns \<open>a\<close> into \<open>b\<close> and
  fails on any other text.
\<close>

definition exactDiffer :: "(string \<times> string) differ" where
  "exactDiffer =
     \<lparr>PatchMake = (\<lambda>a b. if a = b then [] else [(a, b)]),
      PatchApply = (\<lambda>ps t. foldl (\<lambda>acc ab. if fst acc = fst ab then (snd ab, snd acc @ [True])
                                            else (fst acc, snd acc @ [False])) (t, []) ps)\<rparr>"

text \<open>The invariant of the spec for \<open>lineOffset\<close>.\<close>

definition lineOffsetOk :: "'p Editor \<Rightarrow> bool" where
  "lineOffsetOk e =
     (0 \<le> lineOffset e
      \<and> lineOffset e \<le> max 0 (int (length (screenBuffer e)) - snd (screenSize e) div 2))"

text \<open>What the theorems below read off an editor: the raw lines and the screen lines.\<close>

definition buffers :: "'p Editor \<Rightarrow> rune list list \<times> rune list list" where
  "buffers e = (rawBuffer e, screenBuffer e)"

text \<open>The four lines \<open>a\<close>, \<open>b\<close>, \<open>c\<close>, \<open>d\<close>.\<close>

definition fourLines :: string where
  "fourLines = ''a'' @ [CHR 0x0A] @ ''b'' @ [CHR 0x0A] @ ''c'' @ [CHR 0x0A] @ ''d''"

text \<open>\<open>deleteAt\<close> at the cursor, after the given events.\<close>

definition thenDeleteAtCursor :: "(panic + 'p Editor) option \<Rightarrow> (panic + 'p Editor) option" where
  "thenDeleteAtCursor r = map_option (\<lambda>r'. andThen r' (\<lambda>e. deleteAt (cursor e) e)) r"

definition offsetView :: "'p Editor \<Rightarrow> bool \<times> int \<times> nat \<times> int" where
  "offsetView e = (lineOffsetOk e, lineOffset e, length (screenBuffer e), snd (screenSize e))"

text \<open>A pattern none of whose matches ends at offset 0 of the searched text.\<close>

definition neverEmptyAtStart :: "regexp \<Rightarrow> bool" where
  "neverEmptyAtStart p = (\<forall>s a b. FindStringIndex p s = Some (a, b) \<longrightarrow> 0 < b)"

text \<open>
  What \<open>redraw\<close> builds from the raw buffer and the display size; an editor is rendered
  when its screen buffer and index are that.
\<close>

definition rendering :: "'p Editor \<Rightarrow> panic + screen" where
  "rendering e =
     (if fst (screenSize e) = 0 \<or> snd (screenSize e) = 0 then Inr ([], [])
      else redrawLoop (fst (screenSize e)) ([], []) (parseTokens (rawBuffer e)))"

definition rendered :: "'p Editor \<Rightarrow> bool" where
  "rendered e = (rendering e = Inr (screenBuffer e, screenBufferIndex e))"

section \<open>The superseded replace\<close>

text \<open>
  The first \<open>replace\<close> of the source (lines 197-254), in raw space: the content and its
  index are built line by line, with an entry for each rune and for each line break but
  none after the last rune; \<open>x\<close> keeps its value over an empty line.
\<close>

fun contentOfLines ::
  "int \<Rightarrow> nat \<Rightarrow> int \<Rightarrow> rune list list \<Rightarrow> rune list \<times> point list" where
  "contentOfLines xx n yy [] = ([], [])"
| "contentOfLines xx n yy (line # ls) =
     (let xx' = (if line = [] then xx else int (length line) - 1);
          here = (line, map (\<lambda>k. \<lparr>x = int k, y = yy\<rparr>) [0..<length line]);
          brk = (if yy + 1 < int n then ([CHR 0x0A], [\<lparr>x = xx' + 1, y = yy\<rparr>]) else ([], []));
          rest = contentOfLines xx' n (yy + 1) ls
      in (fst here @ fst brk @ fst rest, snd here @ snd brk @ snd rest))"

text \<open>
  Its first iteration up to the two lookups \<open>processedContentIndex[matchIndex[0]]\<close> and
  \<open>processedContentIndex[matchIndex[1]]\<close>: \<open>Inr\<close> holds the two raw points, or none when
  nothing matches.
\<close>

definition firstLookups ::
  "rune list list \<Rightarrow> regexp \<Rightarrow> panic + (point \<times> point) option" where
  "firstLookups contentBuffer p =
     (let c = contentOfLines 0 (length contentBuffer) 0 contentBuffer in
      case FindStringIndex p (fst c) of
        None \<Rightarrow> Inr None
      | Some (a, b) \<Rightarrow>
          if length (snd c) \<le> a then Inl (IndexOutOfRange StartIndexLookup)
          else if length (snd c) \<le> b then Inl (IndexOutOfRange EndIndexLookup)
          else Inr (Some (snd c ! a, snd c ! b)))"

section \<open>The tokenizer on the test input\<close>

lemmas token_defs = reset_def setSelectStart_def setSelectEnd_def setStart_def setEof_def
  setNewLine_def setRune_def setStyle_def setPosX_def setPosY_def makeToken_def

text \<open>
  C3. For the three lines \<open>abc\<close>, \<open><select-from>def<select-to>\<close>, \<open>ghi\<close> the tokenizer
  emits exactly: start; the characters a, b, c at raw points (0,0), (1,0), (2,0); a newline
  at (3,0); selectionStart at (0,1); the characters d, e, f at (13,1), (14,1), (15,1);
  selectionEnd at (16,1); a newline at (27,1); the characters g, h, i at (0,2), (1,2),
  (2,2); eof at (3,2). Each token also carries the raw span it was read from, as the test
  \<open>TestParse\<close> expects.
\<close>

theorem C3_parseTokens_test_sequence:
  "parseTokens (stringToRunes
      (''abc'' @ [CHR 0x0A] @ ''<select-from>def<select-to>'' @ [CHR 0x0A] @ ''ghi''))
   = [setStart (makeToken 0 0 []),
      setRune (CHR ''a'') (makeToken 0 0 ''a''),
      setRune (CHR ''b'') (makeToken 1 0 ''b''),
      setRune (CHR ''c'') (makeToken 2 0 ''c''),
      setNewLine (makeToken 3 0 []),
      setSelectStart (makeToken 0 1 ''<select-from>''),
      setRune (CHR ''d'') (makeToken 13 1 ''d''),
      setRune (CHR ''e'') (makeToken 14 1 ''e''),
      setRune (CHR ''f'') (makeToken 15 1 ''f''),
      setSelectEnd (makeToken 16 1 ''<select-to>''),
      setNewLine (makeToken 27 1 []),
      setRune (CHR ''g'') (makeToken 0 2 ''g''),
      setRune (CHR ''h'') (makeToken 1 2 ''h''),
      setRune (CHR ''i'') (makeToken 2 2 ''i''),
      setEof (makeToken 3 2 [])]"
  by code_simp

section \<open>Flattening\<close>

lemma spanIndex_flatRaw: "map flatRaw (spanIndex p sp base n) = map (\<lambda>k. base + k) [0..<n]"
  by (simp add: spanIndex_def comp_def)

lemma sorted_span: "sorted (map (\<lambda>k. base + k) [0..<n])"
  by (induction n) (auto simp: sorted_append)

lemma spanIndex_bounds:
  "e \<in> set (spanIndex p sp base n) \<Longrightarrow> base \<le> flatRaw e \<and> flatRaw e < base + n"
  by (auto simp: spanIndex_def)

lemma flattenCB_sorted: "flatSorted fl \<Longrightarrow> flatSorted (flattenCB fl tk)"
  unfolding flatSorted_def flattenCB_def Let_def
  by (fastforce simp: sorted_append spanIndex_flatRaw sorted_span list_all_iff
       dest: spanIndex_bounds)

lemma foldl_sorted: "flatSorted fl \<Longrightarrow> flatSorted (foldl flattenCB fl tks)"
  by (induction tks arbitrary: fl) (auto simp: flattenCB_sorted)

lemma flatInit_sorted: "flatSorted flatInit"
  by (simp add: flatSorted_def flatInit_def)

lemma rawIndex_sorted: "sorted (map flatRaw (f_rawIndex (flattenWithIndex rs)))"
  using foldl_sorted[OF flatInit_sorted, of "parseTokens rs"]
  by (simp add: flattenWithIndex_def flatSorted_def)

lemma flatten_test_input:
  "f_flatScreen (flattenWithIndex (stringToRunes ''ab<select-from>c<select-to>'')) = ''abc''
   \<and> f_flatRaw (flattenWithIndex (stringToRunes ''ab<select-from>c<select-to>''))
       = ''ab<select-from>c<select-to>''"
  by code_simp

text \<open>
  C2. For the buffer \<open>ab<select-from>c<select-to>\<close>, \<open>flattenWithIndex\<close> returns
  \<open>flatScreen = abc\<close> and \<open>flatRaw\<close> equal to the input; and for every buffer \<open>rs\<close> the flat
  offsets of the successive \<open>rawIndex\<close> entries never decrease.
\<close>

theorem C2_flatten_test_and_monotone:
  "f_flatScreen (flattenWithIndex (stringToRunes ''ab<select-from>c<select-to>'')) = ''abc''
   \<and> f_flatRaw (flattenWithIndex (stringToRunes ''ab<select-from>c<select-to>''))
       = ''ab<select-from>c<select-to>''
   \<and> sorted (map flatRaw (f_rawIndex (flattenWithIndex rs)))"
  using flatten_test_input rawIndex_sorted by simp

section \<open>Escape and PlainText\<close>



lemma splitLines_nonempty: "splitLines s \<noteq> []"
  by (induction s) (auto split: list.splits)

lemma runesToString_Cons: "ls \<noteq> [] \<Longrightarrow> runesToString (l # ls) = l @ CHR 0x0A # runesToString ls"
  by (cases ls) auto

lemma runesToString_Cons_hd:
  "runesToString ((c # l) # ls) = c # runesToString (l # ls)"
  by (cases ls) auto

lemma runesToString_splitLines: "runesToString (splitLines s) = s"
proof (induction s)
  case Nil
  show ?case by simp
next
  case (Cons c cs)
  show ?case
  proof (cases "c = CHR 0x0A")
    case True
    then show ?thesis using Cons splitLines_nonempty[of cs]
      by (simp add: runesToString_Cons)
  next
    case False
    obtain l ls where sp: "splitLines cs = l # ls"
      using splitLines_nonempty[of cs] by (cases "splitLines cs") auto
    with False Cons show ?thesis
      by (simp add: runesToString_Cons_hd)
  qed
qed






lemma setPosY_y: "y (pos (p_t (v\<lparr>p_t := setPosY i (p_t v)\<rparr>))) = i"
  by (simp add: setPosY_def)





section \<open>Replace\<close>

text \<open>
  C1. On the raw buffer \<open>abc\<close>, \<open>replace\<close> in raw space with the pattern \<open>a\<close>, the
  template \<open>d\<close> and a callback that accepts every match returns the buffer \<open>dbc\<close> and
  calls the callback once, with the text \<open>a\<close> and the raw segment from (0,0) to (1,0). On
  \<open>ab<select-from>c<select-to>\<close> with the selection pattern and the empty template it
  returns \<open>ab\<close>.
\<close>

theorem C1_replace_tests:
  "replace (stringToRunes ''abc'') True (compile (Lit ''a'')) ''d'' acceptAll []
     = Some (Inr (stringToRunes ''dbc'', [(''a'', (pt 0 0, pt 1 0), (pt 0 0, pt 1 0))]))
   \<and> replace (stringToRunes ''ab<select-from>c<select-to>'') True (compile selectionPattern) []
       acceptAll []
     = Some (Inr (stringToRunes ''ab'',
         [(''<select-from>c<select-to>'', (pt 2 0, pt 27 0), (pt 2 0, pt 3 0))]))"
  by code_simp

section \<open>The shape of the token stream and of the index tables\<close>

lemma cb_snd: "snd (cb v tk) = [tk]" by (simp add: cb_def)

lemma parseRune_noeof: "tk \<in> set (snd (parseRune v i r)) \<Longrightarrow> \<not> eof tk"
  by (auto simp: parseRune_def parseVisible_def parseEscape_def parseTag_def toVisible_def
      cb_def Let_def token_defs split: parseState.splits if_splits option.splits)

lemma parseRunes_noeof: "tk \<in> set (snd (parseRunes v i l)) \<Longrightarrow> \<not> eof tk"
  by (induction l arbitrary: v i) (auto simp: Let_def dest: parseRune_noeof)

lemma lineEnd_noeof: "tk \<in> set (snd (lineEnd v n)) \<Longrightarrow> \<not> eof tk"
  by (auto simp: lineEnd_def toVisible_def cb_def token_defs split: if_splits)

lemma parseLines_noeof: "tk \<in> set (snd (parseLines v n i ls)) \<Longrightarrow> \<not> eof tk"
  by (induction ls arbitrary: v i) (auto simp: Let_def dest: parseRunes_noeof lineEnd_noeof)

lemma parseTokens_shape:
  "\<exists>ts e. parseTokens rs = ts @ [e] \<and> eof e \<and> rune e = None \<and> \<not> newLine e \<and> (\<forall>tk \<in> set ts. \<not> eof tk)"
proof -
  let ?r0 = "cb initVars (setStart (p_t initVars))"
  let ?r1 = "parseLines (fst ?r0) (length rs) 0 rs"
  let ?e = "setEof (setPosX (p_tmpX (fst ?r1) + 1) (p_t (fst ?r1)))"
  have "parseTokens rs = (snd ?r0 @ snd ?r1) @ [?e]"
    by (simp add: parseTokens_def Let_def cb_def)
  moreover have "eof ?e" "rune ?e = None" "\<not> newLine ?e" by (simp_all add: token_defs)
  moreover have "\<forall>tk \<in> set (snd ?r0 @ snd ?r1). \<not> eof tk"
    using parseLines_noeof by (auto simp: cb_def token_defs)
  ultimately show ?thesis by blast
qed

lemma flattenCB_lens: "flatLens fl \<Longrightarrow> \<not> eof tk \<Longrightarrow> flatLens (flattenCB fl tk)"
  by (auto simp: flatLens_def flattenCB_def Let_def spanIndex_def)

lemma foldl_lens: "flatLens fl \<Longrightarrow> \<forall>tk \<in> set ts. \<not> eof tk \<Longrightarrow> flatLens (foldl flattenCB fl ts)"
  by (induction ts arbitrary: fl) (auto simp: flattenCB_lens)

lemma flatten_lengths:
  "length (f_rawIndex (flattenWithIndex rs)) = Suc (length (f_flatRaw (flattenWithIndex rs)))"
  "length (f_screenIndex (flattenWithIndex rs)) = Suc (length (f_flatScreen (flattenWithIndex rs)))"
proof -
  obtain ts e where sh: "parseTokens rs = ts @ [e]" "eof e" "rune e = None" "\<not> newLine e"
    "\<forall>tk \<in> set ts. \<not> eof tk"
    using parseTokens_shape by blast
  have "flatLens (foldl flattenCB flatInit ts)"
    using foldl_lens[OF _ sh(5)] by (simp add: flatLens_def flatInit_def)
  then show "length (f_rawIndex (flattenWithIndex rs)) = Suc (length (f_flatRaw (flattenWithIndex rs)))"
    "length (f_screenIndex (flattenWithIndex rs)) = Suc (length (f_flatScreen (flattenWithIndex rs)))"
    using sh by (simp_all add: flattenWithIndex_def flatLens_def flattenCB_def Let_def)
qed

lemma replaceIter_end_lookup:
  "length haystackIndex = Suc (length haystack) \<Longrightarrow>
   replaceIter p repl query haystack haystackIndex v \<noteq> Inl (Inl (IndexOutOfRange EndIndexLookup))"
  by (auto simp: replaceIter_def Let_def split: option.splits prod.splits)

lemma replaceLoop_rule:
  assumes "replaceLoop p repl query h hi v = Some res"
    and "I v"
    and "\<And>v v'. I v \<Longrightarrow> replaceIter p repl query h hi v = Inr v' \<Longrightarrow> I v'"
    and "\<And>v r. I v \<Longrightarrow> replaceIter p repl query h hi v = Inl r \<Longrightarrow> Q r"
  shows "Q res"
proof -
  have "p' = p \<longrightarrow> repl' = repl \<longrightarrow> query' = query \<longrightarrow> h' = h \<longrightarrow> hi' = hi \<longrightarrow> I v \<longrightarrow> Q res"
    if "replaceLoop p' repl' query' h' hi' v = Some res" for p' repl' query' h' hi'
  proof (rule replaceLoop.raw_induct
      [where P = "\<lambda>p' repl' query' h' hi' v res.
         p' = p \<longrightarrow> repl' = repl \<longrightarrow> query' = query \<longrightarrow> h' = h \<longrightarrow> hi' = hi \<longrightarrow> I v \<longrightarrow> Q res",
       OF _ that])
    fix f p' repl' query' h' hi' w r
    assume ih: "\<And>p' repl' query' h' hi' w r. f p' repl' query' h' hi' w = Some r \<Longrightarrow>
        p' = p \<longrightarrow> repl' = repl \<longrightarrow> query' = query \<longrightarrow> h' = h \<longrightarrow> hi' = hi \<longrightarrow> I w \<longrightarrow> Q r"
      and eq: "(case replaceIter p' repl' query' h' hi' w of Inl res \<Rightarrow> Some res
               | Inr v' \<Rightarrow> f p' repl' query' h' hi' v') = Some r"
    show "p' = p \<longrightarrow> repl' = repl \<longrightarrow> query' = query \<longrightarrow> h' = h \<longrightarrow> hi' = hi \<longrightarrow> I w \<longrightarrow> Q r"
    proof (intro impI)
      assume e: "p' = p" "repl' = repl" "query' = query" "h' = h" "hi' = hi" and i: "I w"
      show "Q r"
      proof (cases "replaceIter p repl query h hi w")
        case (Inl r')
        then have "r' = r" using eq e by simp
        then show ?thesis using assms(4)[OF i Inl] by simp
      next
        case (Inr w')
        then have "f p repl query h hi w' = Some r" using eq e by simp
        then show ?thesis using ih assms(3)[OF i Inr] by blast
      qed
    qed
  qed
  then show ?thesis using assms(1,2) by blast
qed

lemma replaceLoop_end_lookup:
  assumes "replaceLoop p repl query haystack haystackIndex v = Some res"
    and "length haystackIndex = Suc (length haystack)"
  shows "res \<noteq> Inl (IndexOutOfRange EndIndexLookup)"
  by (rule replaceLoop_rule[OF assms(1), where I = "\<lambda>v. True"])
     (use replaceIter_end_lookup[OF assms(2)] in auto)

lemma replace_end_lookup:
  "replace rs rawSpace p repl query st \<noteq> Some (Inl (IndexOutOfRange EndIndexLookup))"
proof
  assume a: "replace rs rawSpace p repl query st = Some (Inl (IndexOutOfRange EndIndexLookup))"
  show False
  proof (cases rawSpace)
    case True
    then show ?thesis
      using a replaceLoop_end_lookup[OF _ flatten_lengths(1)[of rs]]
      by (simp add: replace_def Let_def) blast
  next
    case False
    then show ?thesis
      using a replaceLoop_end_lookup[OF _ flatten_lengths(2)[of rs]]
      by (simp add: replace_def Let_def) blast
  qed
qed

text \<open>
  C7, as stated, fails: no buffer, search space, pattern, template and callback make
  \<open>replace\<close> fail at the lookup of the match's end offset (line 1128).
\<close>

theorem C7_no_end_lookup_overflow:
  "\<not> (\<exists>rs rawSpace p repl (query :: 's query) st.
        replace rs rawSpace p repl query st = Some (Inl (IndexOutOfRange EndIndexLookup)))"
  by (simp add: replace_end_lookup)

lemma replaceIter_stuck:
  assumes "FindStringIndex p haystack = Some (0, 0)" "haystack \<noteq> []" "haystackIndex \<noteq> []"
    "flatRaw (hd haystackIndex) = 0" "haystackOffset v = 0"
  shows "\<exists>v'. replaceIter p repl query haystack haystackIndex v = Inr v' \<and> haystackOffset v' = 0"
  using assms by (cases haystackIndex; cases haystack) (auto simp: replaceIter_def Let_def)

lemma replaceLoop_stuck:
  assumes "FindStringIndex p haystack = Some (0, 0)" "haystack \<noteq> []" "haystackIndex \<noteq> []"
    "flatRaw (hd haystackIndex) = 0" "haystackOffset v = 0"
  shows "replaceLoop p repl query haystack haystackIndex v = None"
proof (cases "replaceLoop p repl query haystack haystackIndex v")
  case None
  then show ?thesis .
next
  case (Some res)
  have False
  proof (rule replaceLoop_rule[OF Some, where I = "\<lambda>v. haystackOffset v = 0"])
    show "haystackOffset v = 0" by (rule assms(5))
  next
    fix w w' assume "haystackOffset w = 0" "replaceIter p repl query haystack haystackIndex w = Inr w'"
    then show "haystackOffset w' = 0"
      using replaceIter_stuck[OF assms(1-4), of w repl query] by auto
  next
    fix w r assume "haystackOffset w = 0" "replaceIter p repl query haystack haystackIndex w = Inl r"
    then show False
      using replaceIter_stuck[OF assms(1-4), of w repl query] by auto
  qed
  then show ?thesis ..
qed

text \<open>
  C6 fails on the code: for the buffer \<open>abc\<close> and the empty pattern, which matches the
  empty string at offset 0, the scan offset stays 0 and the loop of \<open>replace\<close> never
  returns, whatever the template and the callback.
\<close>

theorem C6_replace_empty_match_diverges:
  "replace (stringToRunes ''abc'') True (compile (Lit [])) repl query st = None"
proof -
  have fl: "f_flatRaw (flattenWithIndex (stringToRunes ''abc'')) = ''abc''"
    "map flatRaw (f_rawIndex (flattenWithIndex (stringToRunes ''abc''))) = [0, 1, 2, 3]"
    by code_simp+
  show ?thesis
    unfolding replace_def Let_def
    apply (simp only: if_True)
    apply (rule replaceLoop_stuck)
    using fl apply (auto simp: compile_def)
    done
qed

text \<open>
  The loop does return for a pattern that never matches the empty string at the start of
  the remaining haystack: the offset then grows in every iteration. Every non-empty
  literal is such a pattern.
\<close>

lemma replaceIter_advances:
  assumes "neverEmptyAtStart p" "replaceIter p repl query haystack haystackIndex v = Inr v'"
  shows "haystackOffset v < haystackOffset v' \<and> haystackOffset v' < length haystack"
  using assms
  by (auto simp: replaceIter_def Let_def neverEmptyAtStart_def split: if_splits option.splits)

lemma replaceLoop_terminates:
  assumes "neverEmptyAtStart p"
  shows "\<exists>res. replaceLoop p repl query haystack haystackIndex v = Some res"
proof (induction "length haystack - haystackOffset v" arbitrary: v rule: less_induct)
  case less
  show ?case
  proof (cases "replaceIter p repl query haystack haystackIndex v")
    case (Inl r)
    then show ?thesis by (subst replaceLoop.simps) simp
  next
    case (Inr v')
    have "length haystack - haystackOffset v' < length haystack - haystackOffset v"
      using replaceIter_advances[OF assms Inr] by linarith
    from less[OF this] obtain res where
      "replaceLoop p repl query haystack haystackIndex v' = Some res" by blast
    then show ?thesis using Inr by (subst replaceLoop.simps) simp
  qed
qed

lemma replace_terminates:
  "neverEmptyAtStart p \<Longrightarrow> \<exists>res. replace rs rawSpace p repl query st = Some res"
  by (simp add: replace_def Let_def replaceLoop_terminates)

lemma ends_Lit_pos: "w \<noteq> [] \<Longrightarrow> n \<in> set (ends (Lit w) s) \<Longrightarrow> 0 < n"
  by (auto split: if_splits)

lemma findAt_Lit: "w \<noteq> [] \<Longrightarrow> findAt (Lit w) i s = Some (a, b) \<Longrightarrow> 0 < b"
  by (induction s arbitrary: i) (auto split: if_splits list.splits)

lemma compile_Lit_neverEmpty: "w \<noteq> [] \<Longrightarrow> neverEmptyAtStart (compile (Lit w))"
  using findAt_Lit by (auto simp: neverEmptyAtStart_def compile_def)

text \<open>
  C7, amended. For every buffer both index tables have exactly one entry more than their
  haystack, the entry of the \<open>eof\<close> token; the end offset of a match is at most the length
  of the remaining haystack, so its lookup is always inside the table, also when the match
  reaches the end of the buffer.
\<close>

theorem C7_index_tables_have_eof_entry:
  "length (f_rawIndex (flattenWithIndex rs)) = Suc (length (f_flatRaw (flattenWithIndex rs)))
   \<and> length (f_screenIndex (flattenWithIndex rs))
       = Suc (length (f_flatScreen (flattenWithIndex rs)))
   \<and> replaceIter p repl query (f_flatRaw (flattenWithIndex rs))
         (f_rawIndex (flattenWithIndex rs)) v \<noteq> Inl (Inl (IndexOutOfRange EndIndexLookup))
   \<and> replaceIter p repl query (f_flatScreen (flattenWithIndex rs))
         (f_screenIndex (flattenWithIndex rs)) v \<noteq> Inl (Inl (IndexOutOfRange EndIndexLookup))"
  using flatten_lengths[of rs] replaceIter_end_lookup by blast

text \<open>
  The overflow is that of the superseded \<open>replace\<close>, whose index has no entry after the
  last rune: there a match of the entire buffer fails at the lookup of its end.
\<close>

lemma superseded_replace_overflows:
  "firstLookups [''abc''] (compile (Lit ''abc'')) = Inl (IndexOutOfRange EndIndexLookup)
   \<and> firstLookups [''abc''] (compile (Lit ''ab'')) = Inr (Some (pt 0 0, pt 2 0))"
  by code_simp

section \<open>Tag spans and escapes\<close>




section \<open>deleteAt on an escape sequence\<close>

text \<open>
  C10 fails on the code when the escape sequence ends its line. The raw line \<open>&amp;\<close> is
  shown as \<open>&\<close>; \<open>deleteAt\<close> at screen position (0,0) leaves the raw line \<open>amp;\<close>, shown
  as \<open>amp;\<close>: only the \<open>&\<close> is removed, because the test \<open>len(line)-p.x > 5\<close> asks for a
  sixth rune. The same holds for \<open>&gt;\<close> and \<open>&lt;\<close>. With one more rune on the line
  (\<open>&amp;x\<close>) the whole sequence goes, as the claim says.
\<close>

theorem C10_deleteAt_escape_at_line_end:
  "map_sum id buffers (startEdit (80, 24) exactDiffer ''&amp;'') = Inr ([''&amp;''], [''&''])
   \<and> map_sum id buffers (andThen (startEdit (80, 24) exactDiffer ''&amp;'') (deleteAt (pt 0 0)))
       = Inr ([''amp;''], [''amp;''])
   \<and> map_sum id buffers (andThen (startEdit (80, 24) exactDiffer ''&gt;'') (deleteAt (pt 0 0)))
       = Inr ([''gt;''], [''gt;''])
   \<and> map_sum id buffers (andThen (startEdit (80, 24) exactDiffer ''&lt;'') (deleteAt (pt 0 0)))
       = Inr ([''lt;''], [''lt;''])
   \<and> map_sum id buffers (andThen (startEdit (80, 24) exactDiffer ''&amp;x'') (deleteAt (pt 0 0)))
       = Inr ([''x''], [''x''])"
  by code_simp

text \<open>
  Where at least one rune follows the escape sequence on its line, the body of \<open>deleteAt\<close>
  removes the whole sequence.
\<close>

lemma take4_of_take5: "take 5 s = t \<Longrightarrow> take 4 s = take 4 t"
proof -
  assume "take 5 s = t"
  then have "take 4 t = take 4 (take 5 s)" by simp
  also have "\<dots> = take (min 4 5) s" by (rule take_take)
  finally show ?thesis by simp
qed

lemma first_of_take: "take n (drop k l) = c # cs \<Longrightarrow> k < length l \<Longrightarrow> l ! k = c"
proof -
  assume a: "take n (drop k l) = c # cs" and k: "k < length l"
  have "hd (take n (drop k l)) = hd (drop k l)"
    using a by (cases n; cases "drop k l") auto
  then show ?thesis using a k by (simp add: hd_drop_conv_nth)
qed

lemma deleteRaw_lookup:
  assumes "0 \<le> x p" "0 \<le> y p" "y p < int (length (rawBuffer e))"
    and "x p < int (length (rawBuffer e ! nat (y p)))"
  shows "deleteRaw p e =
    (let line = rawBuffer e ! nat (y p); r = line ! nat (x p);
         n = int (length line) - x p; k = nat (x p) in
     if r = CHR ''&'' \<and> 5 < n \<and> take 5 (drop k line) = ''&amp;'' then
       Inr (setLine (y p) (take k line @ drop (k + 5) line) e)
     else if r = CHR ''&'' \<and> 4 < n \<and> take 4 (drop k line) = ''&gt;'' then
       Inr (setLine (y p) (take k line @ drop (k + 4) line) e)
     else if r = CHR ''&'' \<and> 4 < n \<and> take 4 (drop k line) = ''&lt;'' then
       Inr (setLine (y p) (take k line @ drop (k + 4) line) e)
     else Inr (setLine (y p) (take k line @ drop (k + 1) line) e))"
  using assms by (simp add: deleteRaw_def index_def andThen_def Let_def)

lemma deleteRaw_amp:
  assumes "0 \<le> x p" "0 \<le> y p" "y p < int (length (rawBuffer e))"
    and "line = rawBuffer e ! nat (y p)"
    and "take 5 (drop (nat (x p)) line) = ''&amp;''"
    and "5 < int (length line) - x p"
  shows "deleteRaw p e = Inr (setLine (y p) (take (nat (x p)) line @ drop (nat (x p) + 5) line) e)"
proof -
  have "line ! nat (x p) = CHR ''&''"
    using assms(1,5,6) by (intro first_of_take[OF assms(5)]) simp
  then show ?thesis
    using assms by (subst deleteRaw_lookup) (simp_all add: Let_def)
qed

lemma deleteRaw_gt_lt:
  assumes "0 \<le> x p" "0 \<le> y p" "y p < int (length (rawBuffer e))"
    and "line = rawBuffer e ! nat (y p)"
    and "take 4 (drop (nat (x p)) line) = ''&gt;'' \<or> take 4 (drop (nat (x p)) line) = ''&lt;''"
    and "4 < int (length line) - x p"
  shows "deleteRaw p e = Inr (setLine (y p) (take (nat (x p)) line @ drop (nat (x p) + 4) line) e)"
proof -
  have amp: "take 5 (drop (nat (x p)) line) \<noteq> ''&amp;''"
  proof
    assume "take 5 (drop (nat (x p)) line) = ''&amp;''"
    then have "take 4 (drop (nat (x p)) line) = ''&amp''" by (drule_tac take4_of_take5) simp
    then show False using assms(5) by auto
  qed
  have "line ! nat (x p) = CHR ''&''"
    using assms(5)
  proof
    assume a: "take 4 (drop (nat (x p)) line) = ''&gt;''"
    show ?thesis using assms(1,6) by (intro first_of_take[OF a]) simp
  next
    assume a: "take 4 (drop (nat (x p)) line) = ''&lt;''"
    show ?thesis using assms(1,6) by (intro first_of_take[OF a]) simp
  qed
  then show ?thesis
    using assms amp by (subst deleteRaw_lookup) (auto simp add: Let_def)
qed

section \<open>The line offset\<close>

text \<open>
  C9 fails on the code for a content change. In a display of 80 by 4 cells with the four
  lines \<open>a\<close>, \<open>b\<close>, \<open>c\<close>, \<open>d\<close>, the keys End and Up leave \<open>lineOffset = 2\<close> with 4 screen
  lines, inside the bound \<open>max 0 (4 - 4 div 2) = 2\<close>. \<open>deleteAt\<close> at the cursor then joins
  the lines \<open>c\<close> and \<open>d\<close> and redraws: 3 screen lines are left, the bound is 1, and
  \<open>lineOffset\<close> is still 2.
\<close>

theorem C9_deleteAt_breaks_lineOffset_bound:
  "map_option (map_sum id offsetView) (Edit (80, 4) exactDiffer fourLines [KeyEnd, KeyUp])
     = Some (Inr (True, 2, 4, 4))
   \<and> map_option (map_sum id offsetView)
       (thenDeleteAtCursor (Edit (80, 4) exactDiffer fourLines [KeyEnd, KeyUp]))
     = Some (Inr (False, 2, 3, 4))"
  by code_simp

text \<open>
  The paths that set \<open>lineOffset\<close> keep it in the bound: \<open>scroll\<close> where \<open>canScroll\<close>
  allows it (as \<open>moveCursor\<close> calls it), Home and End.
\<close>

lemma redraw_Inr:
  assumes "redraw e = Inr e'"
  shows "\<exists>sb. rendering e = Inr sb \<and> e' = e\<lparr>screenBuffer := fst sb, screenBufferIndex := snd sb\<rparr>"
  using assms
  by (auto simp: redraw_def rendering_def andThen_def Let_def split: if_splits sum.splits)

lemma rendering_cong:
  "rawBuffer e1 = rawBuffer e2 \<Longrightarrow> screenSize e1 = screenSize e2 \<Longrightarrow> rendering e1 = rendering e2"
  by (simp add: rendering_def)

lemma redraw_keeps_screen:
  assumes "rendered e" "rawBuffer e1 = rawBuffer e" "screenSize e1 = screenSize e"
    "redraw e1 = Inr e'"
  shows "screenBuffer e' = screenBuffer e \<and> lineOffset e' = lineOffset e1
    \<and> screenSize e' = screenSize e"
proof -
  obtain sb where sb: "rendering e1 = Inr sb"
    "e' = e1\<lparr>screenBuffer := fst sb, screenBufferIndex := snd sb\<rparr>"
    using redraw_Inr[OF assms(4)] by blast
  have "rendering e1 = rendering e" using assms(2,3) by (rule rendering_cong)
  then have "sb = (screenBuffer e, screenBufferIndex e)"
    using sb(1) assms(1) by (simp add: rendered_def)
  then show ?thesis using sb(2) assms(3) by simp
qed

lemma setCursor_frame:
  "setCursor e = Inr e' \<Longrightarrow>
   screenBuffer e' = screenBuffer e \<and> lineOffset e' = lineOffset e \<and> screenSize e' = screenSize e"
  by (auto simp: setCursor_def andThen_def Let_def split: if_splits sum.splits)

lemma maxInt_pair: "- 9223372036854775808 \<le> a \<or> - 9223372036854775808 \<le> b \<Longrightarrow> maxInt [a, b] = max a b"
  by (auto simp: maxInt_def)

lemma keyHome_ok: "keyHome e = Inr e' \<Longrightarrow> lineOffsetOk e'"
proof -
  assume a: "keyHome e = Inr e'"
  then obtain e1 where e1: "redraw (e\<lparr>cursor := \<lparr>x = 0, y = 0\<rparr>, lineOffset := 0\<rparr>) = Inr e1"
    "setCursor e1 = Inr e'"
    by (auto simp: keyHome_def andThen_def split: sum.splits)
  have "lineOffset e1 = 0" using redraw_Inr[OF e1(1)] by auto
  then have "lineOffset e' = 0" using setCursor_frame[OF e1(2)] by simp
  then show ?thesis by (simp add: lineOffsetOk_def)
qed

lemma keyEnd_ok:
  assumes "rendered e" "keyEnd e = Inr e'"
  shows "lineOffsetOk e'"
proof -
  let ?lo = "maxInt [0, int (length (screenBuffer e)) - snd (screenSize e) div 2]"
  obtain c e1 where e1: "redraw (e\<lparr>lineOffset := ?lo, cursor := c\<rparr>) = Inr e1"
    "setCursor e1 = Inr e'"
    using assms(2) by (auto simp: keyEnd_def andThen_def Let_def split: sum.splits)
  have "screenBuffer e1 = screenBuffer e \<and> lineOffset e1 = ?lo \<and> screenSize e1 = screenSize e"
    using redraw_keeps_screen[OF assms(1) _ _ e1(1)] by simp
  then have "screenBuffer e' = screenBuffer e \<and> lineOffset e' = ?lo \<and> screenSize e' = screenSize e"
    using setCursor_frame[OF e1(2)] by simp
  then show ?thesis by (simp add: lineOffsetOk_def maxInt_pair)
qed

lemma scroll_ok:
  assumes "rendered e" "lineOffsetOk e" "canScroll d e" "scroll d e = Inr e'"
  shows "lineOffsetOk e'"
proof (cases "fst (screenSize e) = 0 \<or> snd (screenSize e) = 0")
  case True
  then show ?thesis using assms(2,4) by (simp add: scroll_def)
next
  case False
  let ?b = "int (length (screenBuffer e)) - snd (screenSize e) div 2"
  let ?lo = "case d of up \<Rightarrow> lineOffset e - 1 | down \<Rightarrow> lineOffset e + 1 | _ \<Rightarrow> lineOffset e"
  have r: "redraw (e\<lparr>lineOffset := limitInt ?lo 0 ?b\<rparr>) = Inr e'"
    using assms(4) False by (simp add: scroll_def Let_def)
  have s: "screenBuffer e' = screenBuffer e \<and> lineOffset e' = limitInt ?lo 0 ?b
      \<and> screenSize e' = screenSize e"
    using redraw_keeps_screen[OF assms(1) _ _ r] by simp
  have "0 \<le> limitInt ?lo 0 ?b \<and> limitInt ?lo 0 ?b \<le> max 0 ?b"
    using assms(2,3) by (cases d) (auto simp: canScroll_def lineOffsetOk_def limitInt_def)
  then show ?thesis using s by (simp add: lineOffsetOk_def)
qed

section \<open>Undo\<close>

text \<open>
  C5 fails on the code. In a display of 80 by 4 cells, on the empty text, six presses of
  Enter give seven lines and scroll to \<open>lineOffset = 3\<close>. Four presses of Ctrl-Z restore
  the content of three lines; the fifth restores two lines into the raw buffer and then
  panics in \<open>redraw\<close>, whose slice \<open>e.screenBuffer[e.lineOffset:]\<close> starts beyond the two
  screen lines. The content before the first event is never reached.
\<close>

theorem C5_undo_panics_in_redraw:
  "map_option (map_sum id Content)
     (Edit (80, 4) exactDiffer []
        [KeyEnter, KeyEnter, KeyEnter, KeyEnter, KeyEnter, KeyEnter])
     = Some (Inr [CHR 0x0A, CHR 0x0A, CHR 0x0A, CHR 0x0A, CHR 0x0A, CHR 0x0A])
   \<and> map_option (map_sum id Content)
       (Edit (80, 4) exactDiffer []
          [KeyEnter, KeyEnter, KeyEnter, KeyEnter, KeyEnter, KeyEnter,
           KeyCtrlZ, KeyCtrlZ, KeyCtrlZ, KeyCtrlZ])
     = Some (Inr [CHR 0x0A, CHR 0x0A])
   \<and> map_option (map_sum id Content)
       (Edit (80, 4) exactDiffer []
          [KeyEnter, KeyEnter, KeyEnter, KeyEnter, KeyEnter, KeyEnter,
           KeyCtrlZ, KeyCtrlZ, KeyCtrlZ, KeyCtrlZ, KeyCtrlZ])
     = Some (Inl (SliceOutOfRange ScreenBufferSlice))"
  by code_simp

text \<open>
  One step of the stack discipline: where the patch on top of the stack applies, Ctrl-Z
  and Ctrl-Y put the patched text into the raw buffer and pop the stack, unless \<open>redraw\<close>
  panics.
\<close>

lemma Content_stringToRunes: "runesToString (stringToRunes s) = s"
  by (simp add: stringToRunes_def runesToString_splitLines)

lemma redraw_rawBuffer: "redraw e = Inr e' \<Longrightarrow> rawBuffer e' = rawBuffer e"
  using redraw_Inr by fastforce

lemma keyCtrlZ_step:
  assumes "undoPatches e = us @ [pa]"
    and "PatchApply (differ e) (patches pa) prevContent = (prev, True # oks)"
  shows "keyCtrlZ prevContent e =
     redraw (e\<lparr>undoPatches := us,
               redoPatches := redoPatches e
                 @ [\<lparr>patchCursor = patchCursor pa,
                     patches = PatchMake (differ e) prev prevContent\<rparr>],
               rawBuffer := stringToRunes prev,
               cursor := patchCursor pa\<rparr>)"
  using assms by (simp add: keyCtrlZ_def Let_def index_def andThen_def)

lemma keyCtrlZ_restores:
  assumes "undoPatches e = us @ [pa]"
    and "PatchApply (differ e) (patches pa) prevContent = (prev, True # oks)"
    and "keyCtrlZ prevContent e = Inr e'"
  shows "Content e' = prev \<and> undoPatches e' = us"
proof -
  from assms(3) have "rawBuffer e' = stringToRunes prev \<and> undoPatches e' = us"
    unfolding keyCtrlZ_step[OF assms(1,2)] using redraw_Inr by fastforce
  then show ?thesis by (simp add: Content_def Content_stringToRunes)
qed

lemma keyCtrlY_restores:
  assumes "redoPatches e = rs @ [pa]"
    and "PatchApply (differ e) (patches pa) prevContent = (next, True # oks)"
    and "keyCtrlY prevContent e = Inr e'"
  shows "Content e' = next \<and> redoPatches e' = rs"
proof -
  have "keyCtrlY prevContent e =
     redraw (e\<lparr>redoPatches := rs, rawBuffer := stringToRunes next, cursor := patchCursor pa\<rparr>)"
    using assms(1,2) by (simp add: keyCtrlY_def Let_def index_def andThen_def)
  with assms(3) have "rawBuffer e' = stringToRunes next \<and> redoPatches e' = rs"
    using redraw_Inr by fastforce
  then show ?thesis by (simp add: Content_def Content_stringToRunes)
qed

end
